theory Spec2Isabelle
  imports Complex_Main "HOL-Library.Log_Nat"
begin

section \<open>Text and pattern matching as the scripts use them\<close>

text \<open>
  The scripts work on Python \<open>str\<close> values with the \<open>re\<close> module. A text is modelled
  as a \<open>string\<close>; a \<open>char\<close> stands for the code point of the same number, so the
  model covers texts whose code points are below 256. On that range \<open>\d\<close> is the ten
  ASCII digits, \<open>\w\<close> is the alphanumeric code points and the underscore, \<open>.\<close> and
  \<open>[^\n]\<close> are everything but the line feed, and \<open>str.isspace\<close> holds for the twelve
  code points listed in \<open>is_space\<close>.
\<close>

definition newline :: char where
  "newline = CHR 0x0A"

definition is_digit :: "char \<Rightarrow> bool" where
  "is_digit c = (let n = (of_char c :: nat) in 48 \<le> n \<and> n \<le> 57)"

definition is_word :: "char \<Rightarrow> bool" where
  "is_word c =
     (let n = (of_char c :: nat)
      in (48 \<le> n \<and> n \<le> 57) \<or> (65 \<le> n \<and> n \<le> 90) \<or> n = 95 \<or> (97 \<le> n \<and> n \<le> 122)
         \<or> n = 170 \<or> n = 178 \<or> n = 179 \<or> n = 181 \<or> n = 185 \<or> n = 186
         \<or> (188 \<le> n \<and> n \<le> 190) \<or> (192 \<le> n \<and> n \<le> 214)
         \<or> (216 \<le> n \<and> n \<le> 246) \<or> (248 \<le> n \<and> n \<le> 255))"

definition is_word_or_colon :: "char \<Rightarrow> bool" where
  "is_word_or_colon c = (is_word c \<or> c = CHR '':'')"

definition not_newline :: "char \<Rightarrow> bool" where
  "not_newline c = (c \<noteq> newline)"

definition is_space :: "char \<Rightarrow> bool" where
  "is_space c =
     (let n = (of_char c :: nat)
      in (9 \<le> n \<and> n \<le> 13) \<or> (28 \<le> n \<and> n \<le> 32) \<or> n = 133 \<or> n = 160)"

text \<open>\<open>s.startswith(p)\<close> and \<open>sub in s\<close>.\<close>

definition startswith :: "string \<Rightarrow> string \<Rightarrow> bool" where
  "startswith s p = (take (length p) s = p)"

fun contains :: "string \<Rightarrow> string \<Rightarrow> bool" where
  "contains sub [] = (sub = [])"
| "contains sub (c # cs) = (startswith (c # cs) sub \<or> contains sub cs)"

text \<open>
  The regular expressions of the scripts use literals, a character class repeated
  between a lower and an optional upper bound (greedy, or lazy for \<open>.+?\<close>), sequence,
  alternation, one capturing group, and \<open>$\<close>. \<open>rmatch r s\<close> lists every way \<open>r\<close>
  matches a prefix of \<open>s\<close>, as the captured group (when set) and the number of
  characters consumed, in the order in which a backtracking matcher tries them: the
  greedy repetition longest first, the lazy one shortest first, the left alternative
  before the right one. The first entry is the match \<open>re\<close> reports.
\<close>

datatype regex =
    Lit string
  | Rep "char \<Rightarrow> bool" nat "nat option" bool
  | Seq regex regex
  | Alt regex regex
  | Group regex
  | Eol

type_synonym match = "string option \<times> nat"

fun rmatch :: "regex \<Rightarrow> string \<Rightarrow> match list" where
  "rmatch (Lit l) s = (if startswith s l then [(None, length l)] else [])"
| "rmatch (Rep p lo hi greedy) s =
     (let run = length (takeWhile p s);
          top = (case hi of None \<Rightarrow> run | Some h \<Rightarrow> min h run);
          ks = [lo ..< Suc top]
      in map (Pair None) (if greedy then rev ks else ks))"
| "rmatch (Seq a b) s =
     concat (map (\<lambda>(g, k).
        map (\<lambda>(g', k'). (case g' of None \<Rightarrow> g | Some x \<Rightarrow> Some x, k + k'))
          (rmatch b (drop k s))) (rmatch a s))"
| "rmatch (Alt a b) s = rmatch a s @ rmatch b s"
| "rmatch (Group a) s = map (\<lambda>(g, k). (Some (take k s), k)) (rmatch a s)"
| "rmatch Eol s = (if s = [] \<or> s = [newline] then [(None, 0)] else [])"

fun seq :: "regex list \<Rightarrow> regex" where
  "seq [] = Lit []"
| "seq [r] = r"
| "seq (r # rs) = Seq r (seq rs)"

text \<open>\<open>re.match\<close>: the pattern at position 0.\<close>

definition re_match :: "regex \<Rightarrow> string \<Rightarrow> match option" where
  "re_match r s = (case rmatch r s of [] \<Rightarrow> None | m # _ \<Rightarrow> Some m)"

text \<open>\<open>re.search\<close>: the leftmost position where the pattern matches.\<close>

fun re_search :: "regex \<Rightarrow> string \<Rightarrow> match option" where
  "re_search r [] = re_match r []"
| "re_search r (c # cs) =
     (case re_match r (c # cs) of Some m \<Rightarrow> Some m | None \<Rightarrow> re_search r cs)"

text \<open>
  \<open>m.group(1)\<close>. Every pattern on which the scripts read group 1 has that group
  outside any alternative, so it is set in every match.
\<close>

definition group1 :: "match \<Rightarrow> string" where
  "group1 m = (case fst m of Some g \<Rightarrow> g | None \<Rightarrow> [])"

text \<open>
  \<open>re.findall\<close> for a pattern with one group: the group of each match, scanning on
  from the end of the previous match. The one pattern it is used with never matches
  the empty text; \<open>max 1\<close> only states that the scan moves on.
\<close>

function re_findall :: "regex \<Rightarrow> string \<Rightarrow> string list" where
  "re_findall r [] = (case re_match r [] of None \<Rightarrow> [] | Some m \<Rightarrow> [group1 m])"
| "re_findall r (c # cs) =
     (case re_match r (c # cs) of
        None \<Rightarrow> re_findall r cs
      | Some m \<Rightarrow> group1 m # re_findall r (drop (max 1 (snd m)) (c # cs)))"
  by pat_completeness auto
termination
  by (relation "measure (\<lambda>(r, s). length s)") auto

section \<open>SIP2.py: the session correlator\<close>

definition digits :: "nat \<Rightarrow> regex" where
  "digits n = Rep is_digit n (Some n) True"

text \<open>\<open>\d{2}:\d{2}:\d{2}\.\d{3}\<close>, and the same in a group.\<close>

definition timestamp_body :: regex where
  "timestamp_body =
     seq [digits 2, Lit '':'', digits 2, Lit '':'', digits 2, Lit ''.'', digits 3]"

definition timestamp_re :: regex where
  "timestamp_re = Group timestamp_body"

text \<open>\<open>\[SID=([\w:]+)\]\<close>\<close>

definition sid_re :: regex where
  "sid_re = seq [Lit ''[SID='', Group (Rep is_word_or_colon 1 None True), Lit '']'']"

text \<open>\<open>(\d{1,3}\.\d{1,3}\.\d{1,3}\.\d{1,3})\<close>\<close>

definition octet :: regex where
  "octet = Rep is_digit 1 (Some 3) True"

definition ip_re :: regex where
  "ip_re = Group (seq [octet, Lit ''.'', octet, Lit ''.'', octet, Lit ''.'', octet])"

text \<open>\<open>IPG_(\w+)\<close>\<close>

definition ip_group_re :: regex where
  "ip_group_re = seq [Lit ''IPG_'', Group (Rep is_word 1 None True)]"

text \<open>\<open>FROM: <(.+?)>\<close> and \<open>TO: <(.+?)>\<close>\<close>

definition from_re :: regex where
  "from_re = seq [Lit ''FROM: <'', Group (Rep not_newline 1 None False), Lit ''>'']"

definition to_re :: regex where
  "to_re = seq [Lit ''TO: <'', Group (Rep not_newline 1 None False), Lit ''>'']"

text \<open>\<open>Call End Reason: (.+?)$\<close>\<close>

definition term_reason_re :: regex where
  "term_reason_re = seq [Lit ''Call End Reason: '', Group (Rep not_newline 1 None False), Eol]"

text \<open>
  \<open>current_session\<close> is a dict from field name to text; an entry of
  \<open>self.log_entries\<close> is a dict literal with nine fixed keys.
\<close>

type_synonym session = "string \<rightharpoonup> string"

record log_entry =
  Call_End_Time :: string
  Session_ID :: string
  IP_Group :: string
  Caller :: string
  Callee :: string
  Direction :: string
  Remote_IP :: string
  Termination_Reason :: string
  Duration :: string

definition dict_get :: "(string \<rightharpoonup> string) \<Rightarrow> string \<Rightarrow> string \<Rightarrow> string" where
  "dict_get d k dflt = (case d k of Some v \<Rightarrow> v | None \<Rightarrow> dflt)"

text \<open>
  The values the loop body of \<open>parse_log_file\<close> reads off one line: the session id,
  the remote address (the second dotted quad), the IP group, the direction, and
  \<open>current_session\<close> after the caller, callee and termination reason of the line
  have been stored in it.
\<close>

definition sid_of :: "string \<Rightarrow> string" where
  "sid_of line = (case re_search sid_re line of Some m \<Rightarrow> group1 m | None \<Rightarrow> '''')"

definition remote_ip_of :: "string \<Rightarrow> string" where
  "remote_ip_of line =
     (let ip_matches = re_findall ip_re line
      in if length ip_matches > 1 then ip_matches ! 1 else '''')"

definition ip_group_of :: "string \<Rightarrow> string" where
  "ip_group_of line =
     (case re_search ip_group_re line of Some m \<Rightarrow> group1 m | None \<Rightarrow> '''')"

definition direction_of :: "string \<Rightarrow> string" where
  "direction_of line =
     (if contains ''Incoming SIP Message'' line then ''Incoming''
      else if contains ''Outgoing SIP Message'' line then ''Outgoing''
      else '''')"

definition update_session :: "session \<Rightarrow> string \<Rightarrow> session" where
  "update_session current_session line =
     (let session1 =
            (if contains ''FROM:'' line
             then (case re_search from_re line of
                     Some m \<Rightarrow> current_session(''caller'' \<mapsto> group1 m)
                   | None \<Rightarrow> current_session)
             else current_session);
          session2 =
            (if contains ''TO:'' line
             then (case re_search to_re line of
                     Some m \<Rightarrow> session1(''callee'' \<mapsto> group1 m)
                   | None \<Rightarrow> session1)
             else session1)
      in case re_search term_reason_re line of
           Some m \<Rightarrow> session2(''termination_reason'' \<mapsto> group1 m)
         | None \<Rightarrow> session2)"

definition call_end :: "string \<Rightarrow> bool" where
  "call_end line = (contains ''Call End'' line \<or> contains ''Released'' line)"

text \<open>
  The body of the loop \<open>for line in file\<close> of \<open>parse_log_file\<close>, on the pair of
  \<open>current_session\<close> and \<open>self.log_entries\<close>. A line without a leading timestamp
  is skipped whole.
\<close>

definition parse_log_file_step :: "session \<times> log_entry list \<Rightarrow> string \<Rightarrow> session \<times> log_entry list" where
  "parse_log_file_step st line =
     (let current_session = fst st;
          log_entries = snd st
      in case re_match timestamp_re line of
           None \<Rightarrow> st
         | Some tm \<Rightarrow>
            (let timestamp = group1 tm;
                 session = update_session current_session line
             in if call_end line
                then (Map.empty,
                      log_entries @
                      [\<lparr>Call_End_Time = timestamp,
                        Session_ID = sid_of line,
                        IP_Group = ip_group_of line,
                        Caller = dict_get session ''caller'' '''',
                        Callee = dict_get session ''callee'' '''',
                        Direction = direction_of line,
                        Remote_IP = remote_ip_of line,
                        Termination_Reason = dict_get session ''termination_reason'' ''Normal'',
                        Duration = dict_get session ''duration'' ''''\<rparr>])
                else (session, log_entries)))"

text \<open>
  Iterating over a text file yields its lines, each with its line feed (the last line
  may lack one). The text is the file content as Python hands it over, with every line
  ending already translated to a line feed.
\<close>

fun readlines :: "string \<Rightarrow> string list" where
  "readlines [] = []"
| "readlines (c # cs) =
     (if c = newline then [c] # readlines cs
      else (case readlines cs of [] \<Rightarrow> [[c]] | l # ls \<Rightarrow> (c # l) # ls))"

definition parse_log_file :: "string \<Rightarrow> log_entry list" where
  "parse_log_file text = snd (foldl parse_log_file_step (Map.empty, []) (readlines text))"

section \<open>SIP.py: message blocks and field extraction\<close>

text \<open>\<open>str.split('\n')\<close>, \<open>sep.join(xs)\<close>, and whether \<open>s.strip()\<close> is non-empty.\<close>

fun split_nl :: "string \<Rightarrow> string list" where
  "split_nl [] = [[]]"
| "split_nl (c # cs) =
     (if c = newline then [] # split_nl cs
      else (case split_nl cs of [] \<Rightarrow> [[c]] | l # ls \<Rightarrow> (c # l) # ls))"

fun join :: "string \<Rightarrow> string list \<Rightarrow> string" where
  "join sep [] = []"
| "join sep [x] = x"
| "join sep (x # y # ys) = x @ sep @ join sep (y # ys)"

definition strip :: "string \<Rightarrow> string" where
  "strip s = rev (dropWhile is_space (rev (dropWhile is_space s)))"

text \<open>Line 75: \<open>re.match(r'^\d{2}:\d{2}:\d{2}\.\d{3}', line)\<close>.\<close>

definition new_message_starts :: "string \<Rightarrow> bool" where
  "new_message_starts line = (re_match timestamp_body line \<noteq> None)"

text \<open>
  The loop of \<open>analyze_logs\<close> that builds \<open>messages\<close> (lines 71 to 79), on the pair of
  \<open>messages\<close> and \<open>current_message\<close>, and the flush after it (lines 81 and 82).
\<close>

fun split_loop :: "string list \<times> string list \<Rightarrow> string list \<Rightarrow> string list \<times> string list" where
  "split_loop st [] = st"
| "split_loop (messages, current_message) (line # rest) =
     (if new_message_starts line \<and> current_message \<noteq> []
      then split_loop (messages @ [join [newline] current_message], [line]) rest
      else split_loop (messages, current_message @ [line]) rest)"

definition flush :: "string list \<times> string list \<Rightarrow> string list" where
  "flush st =
     (case st of
        (messages, current_message) \<Rightarrow>
          if current_message \<noteq> [] then messages @ [join [newline] current_message]
          else messages)"

definition split_messages :: "string \<Rightarrow> string list" where
  "split_messages log_content = flush (split_loop ([], []) (split_nl log_content))"

text \<open>Lines 86 and 87: only the messages that are not blank are parsed.\<close>

definition kept_messages :: "string \<Rightarrow> string list" where
  "kept_messages log_content = filter (\<lambda>message. strip message \<noteq> []) (split_messages log_content)"

text \<open>
  The patterns of \<open>parse_log_line\<close>, in the order of the dict. A pattern that begins
  with \<open>^\<close> can match at position 0 only, so \<open>re.search\<close> of it is \<open>re.match\<close> of the
  rest; the flag says which patterns are anchored so.
\<close>

fun alts :: "regex list \<Rightarrow> regex" where
  "alts [] = Lit []"
| "alts [r] = r"
| "alts (r # rs) = Alt r (alts rs)"

definition message_type_re :: regex where
  "message_type_re =
     Group (alts [Lit ''OPTIONS'', Lit ''INVITE'', Lit ''ACK'', Lit ''BYE'', Lit ''CANCEL'',
                  Lit ''REGISTER'', Lit ''NOTIFY'', Seq (Lit ''SIP/2.0 '') (digits 3)])"

definition header_re :: "string \<Rightarrow> regex" where
  "header_re label = Seq (Lit label) (Group (Rep not_newline 1 None True))"

definition patterns :: "(string \<times> bool \<times> regex) list" where
  "patterns =
     [(''timestamp'', True, timestamp_re),
      (''ip'', False, ip_re),
      (''sid'', False, sid_re),
      (''message_type'', False, message_type_re),
      (''call_id'', False, header_re ''CALL-ID: ''),
      (''from_uri'', False, header_re ''FROM: ''),
      (''to_uri'', False, header_re ''TO: ''),
      (''user_agent'', False, header_re ''USER-AGENT: '')]"

definition search_text :: "bool \<Rightarrow> regex \<Rightarrow> string \<Rightarrow> string" where
  "search_text anchored pattern line =
     (case (if anchored then re_match pattern line else re_search pattern line) of
        Some m \<Rightarrow> group1 m
      | None \<Rightarrow> '''')"

text \<open>\<open>SIP/2\.0 (\d{3})\<close>\<close>

definition status_re :: regex where
  "status_re = Seq (Lit ''SIP/2.0 '') (Group (digits 3))"

definition parse_log_line :: "string \<Rightarrow> (string \<rightharpoonup> string)" where
  "parse_log_line line =
     (let entry0 = foldl (\<lambda>entry (key, anchored, pattern).
                            entry(key \<mapsto> search_text anchored pattern line))
                     Map.empty patterns;
          entry1 = entry0(''direction'' \<mapsto>
                     (if contains ''Incoming SIP Message'' line then ''Incoming''
                      else if contains ''Outgoing SIP Message'' line then ''Outgoing''
                      else ''Internal''))
      in entry1(''status_code'' \<mapsto> search_text False status_re line))"

text \<open>Lines 85 to 89: \<open>parsed_data\<close>.\<close>

definition parsed_data :: "string \<Rightarrow> (string \<rightharpoonup> string) list" where
  "parsed_data log_content = map parse_log_line (kept_messages log_content)"

section \<open>The status taxonomy: TeamsLog.py, TeasmLogsV2.py, TeasmLogsV3.py\<close>

text \<open>
  Status codes and subcodes are Python ints (\<open>process_file\<close> of TeasmLogsV2.py and
  TeasmLogsV3.py applies \<open>int\<close> to the cells; TeamsLog.py passes on what pandas read
  from an integer column), so they are modelled as \<open>int\<close>. \<open>str_int\<close> is \<open>str\<close> on
  an int, which is also what an f-string makes of it.
\<close>

definition digit_char :: "nat \<Rightarrow> char" where
  "digit_char d = char_of (48 + d)"

function str_nat :: "nat \<Rightarrow> string" where
  "str_nat n = (if n < 10 then [digit_char n] else str_nat (n div 10) @ [digit_char (n mod 10)])"
  by pat_completeness auto
termination
  by (relation "measure (\<lambda>n. n)") auto

declare str_nat.simps [simp del]

definition str_int :: "int \<Rightarrow> string" where
  "str_int i = (if i < 0 then CHR ''-'' # str_nat (nat (- i)) else str_nat (nat i))"

text \<open>\<open>d.get(key, default)\<close> on a dict literal, kept as the list of its items.\<close>

definition get_or :: "('k \<times> 'v) list \<Rightarrow> 'k \<Rightarrow> 'v \<Rightarrow> 'v" where
  "get_or d k dflt = (case map_of d k of Some v \<Rightarrow> v | None \<Rightarrow> dflt)"

record subcode_info =
  description :: string
  cause :: string
  resolution :: string

text \<open>\<open>sip_explanations\<close>, the same table in TeamsLog.py and in TeasmLogsV3.py.\<close>

definition sip_explanations :: "(int \<times> string) list" where
  "sip_explanations =
     [(100, ''Call is being processed. Please wait.''),
      (180, ''Phone is ringing at the destination.''),
      (181, ''Call is being redirected to another number.''),
      (182, ''Call is in a queue and will be handled soon.''),
      (183, ''Call setup is in progress.''),
      (200, ''Call connected successfully.''),
      (202, ''Request accepted and will be processed.''),
      (300, ''Multiple call destinations found.''),
      (301, ''Call destination has permanently changed.''),
      (302, ''Call destination is temporarily different.''),
      (305, ''You must use a specific network route.''),
      (380, ''Alternative communication method available.''),
      (400, ''Invalid call request. Check the number.''),
      (401, ''Authentication required to complete the call.''),
      (403, ''Call blocked or not allowed.''),
      (404, ''Phone number or user not found.''),
      (405, ''Calling method not permitted.''),
      (406, ''Call cannot be completed due to incompatible settings.''),
      (407, ''Proxy authentication needed.''),
      (408, ''No response from the destination. Timeout occurred.''),
      (410, ''Number is no longer in service.''),
      (413, ''Call request too large to process.''),
      (414, ''Phone number too complicated to dial.''),
      (415, ''Unsupported communication method.''),
      (416, ''Unrecognized phone number format.''),
      (420, ''Unsupported communication feature.''),
      (421, ''Missing required communication feature.''),
      (423, ''Call setup time too short.''),
      (480, ''Destination temporarily unavailable.''),
      (481, ''Call cannot be found or tracked.''),
      (482, ''Call routing has created a loop.''),
      (483, ''Too many network hops to complete call.''),
      (484, ''Incomplete phone number.''),
      (485, ''Unclear which number to call.''),
      (486, ''Destination is currently busy.''),
      (487, ''Call was cancelled or stopped.''),
      (488, ''Call cannot be accepted by recipient.''),
      (500, ''Network error. Unable to complete call.''),
      (501, ''Call feature not supported.''),
      (502, ''Network routing problem.''),
      (503, ''Network overloaded or maintenance.''),
      (504, ''Network route timeout.''),
      (505, ''Unsupported communication protocol.''),
      (513, ''Call request too large.''),
      (600, ''User is busy everywhere.''),
      (603, ''Call explicitly rejected.''),
      (604, ''User does not exist.''),
      (606, ''Call settings prevent connection.'')]"

text \<open>\<open>detailed_explanations\<close>, the same table in TeamsLog.py and in TeasmLogsV3.py.\<close>

definition detailed_explanations :: "(int \<times> string) list" where
  "detailed_explanations =
     [(100, ''Trying - The request is being processed, but no definitive response is available yet.''),
      (180, ''Ringing - The destination user agent is alerting the user.''),
      (181, ''Call Is Being Forwarded - The call is being redirected to another destination.''),
      (182, ''Queued - The request is queued and will be processed soon.''),
      (183, ''Session Progress - Provides progress information about the call setup.''),
      (200, ''OK - The request has been successfully processed and accepted.''),
      (202, ''Accepted - The request has been accepted for processing, but not completed yet.''),
      (300, ''Multiple Choices - The requested address resolves to multiple destinations.''),
      (301, ''Moved Permanently - The requested address is no longer valid and has a new permanent address.''),
      (302, ''Moved Temporarily - The requested address is temporarily unavailable and has a new temporary address.''),
      (305, ''Use Proxy - The client must use the specified proxy to reach the destination.''),
      (380, ''Alternative Service - The request cannot be fulfilled, but an alternative service is available.''),
      (400, ''Bad Request - The request could not be understood due to malformed syntax.''),
      (401, ''Unauthorized - The request requires user authentication.''),
      (403, ''Forbidden - The server understood the request but refuses to authorize it.''),
      (404, ''Not Found - The requested user could not be located on the server.''),
      (405, ''Method Not Allowed - The specified method is not allowed for the requested address.''),
      (406, ''Not Acceptable - The requested resource cannot generate content matching the client's Accept headers.''),
      (407, ''Proxy Authentication Required - The client must first authenticate with the proxy.''),
      (408, ''Request Timeout - No response was received from the destination in a timely manner.''),
      (410, ''Gone - The requested resource is no longer available and will not be available again.''),
      (413, ''Request Entity Too Large - The request payload exceeds server processing capabilities.''),
      (414, ''Request-URI Too Long - The request URI exceeds the server's maximum processing length.''),
      (415, ''Unsupported Media Type - The request includes a media type the server cannot process.''),
      (416, ''Unsupported URI Scheme - The request contains a URI scheme the server does not support.''),
      (420, ''Bad Extension - The server does not understand a specified SIP extension.''),
      (421, ''Extension Required - The server requires a specific extension not present in the request.''),
      (423, ''Interval Too Brief - The request's expiration interval is too short.''),
      (480, ''Temporarily Unavailable - The destination cannot be reached but might be available later.''),
      (481, ''Call/Transaction Does Not Exist - The call or transaction referenced does not exist.''),
      (482, ''Loop Detected - The request indicates a loop in the routing path.''),
      (483, ''Too Many Hops - Maximum number of routing hops has been exceeded.''),
      (484, ''Address Incomplete - The request URI is incomplete.''),
      (485, ''Ambiguous - The request URI is ambiguous and could not be resolved uniquely.''),
      (486, ''Busy Here - The destination is currently busy and cannot accept the call.''),
      (487, ''Request Terminated - The request was terminated by the user or network.''),
      (488, ''Not Acceptable Here - The request cannot be accepted by the recipient.''),
      (500, ''Server Internal Error - An unexpected condition prevented request fulfillment.''),
      (501, ''Not Implemented - The server does not support the functionality required.''),
      (502, ''Bad Gateway - The server received an invalid response from another server.''),
      (503, ''Service Unavailable - The server is temporarily overloaded or under maintenance.''),
      (504, ''Server Time-out - No response received from an upstream server.''),
      (505, ''Version Not Supported - The SIP version is not supported.''),
      (513, ''Message Too Large - The message exceeds the server's processing capabilities.''),
      (600, ''Busy Everywhere - The requested user is busy across all possible locations.''),
      (603, ''Decline - The user explicitly declines the call.''),
      (604, ''Does Not Exist Anywhere - The user cannot be found at any location.''),
      (606, ''Not Acceptable - The user's preferences do not allow the call to be completed.'')]"

text \<open>\<open>microsoft_subcode_explanations\<close> of TeamsLog.py.\<close>

definition subcode_texts :: "(int \<times> string) list" where
  "subcode_texts =
     [(560486, ''Network busy or user unavailable.''),
      (560487, ''Call cancelled or network timeout.''),
      (560404, ''User or number not found.''),
      (560480, ''Temporary service interruption.''),
      (560503, ''Service currently unavailable.''),
      (0, ''No additional details available.'')]"

text \<open>
  \<open>self.microsoft_subcode_explanations\<close>, the same table in TeasmLogsV2.py and in
  TeasmLogsV3.py (where \<open>load_explanations\<close> sets it on the instance).
\<close>

definition microsoft_subcode_explanations :: "(int \<times> subcode_info) list" where
  "microsoft_subcode_explanations =
     [(560486, \<lparr>description = ''Network busy or user unavailable'',
         cause = ''The destination user agent or network is temporarily unavailable'',
         resolution = ''Retry the call after a brief delay. If persistent, check network conditions.''\<rparr>),
      (560487, \<lparr>description = ''Call cancelled or network timeout'',
         cause = ''The call was terminated due to timeout or user cancellation'',
         resolution = ''Check network latency and connection stability.''\<rparr>),
      (560404, \<lparr>description = ''User or number not found'',
         cause = ''The dialed number is invalid or user does not exist'',
         resolution = ''Verify the phone number and user existence in the system.''\<rparr>),
      (560480, \<lparr>description = ''Temporary service interruption'',
         cause = ''Service is temporarily unavailable'',
         resolution = ''Wait for service restoration and retry. Check service status.''\<rparr>),
      (560503, \<lparr>description = ''Service currently unavailable'',
         cause = ''System overload or maintenance'',
         resolution = ''Wait for service restoration. If persistent, contact support.''\<rparr>)]"

subsection \<open>TeamsLog.py\<close>

text \<open>
  \<open>explain_sip\<close> returns the pair of the full simple and the full detailed explanation;
  \<open>simple_explanation\<close> is the local value the first of them begins with.
\<close>

definition simple_explanation :: "int \<Rightarrow> string" where
  "simple_explanation final_sip_code =
     get_or sip_explanations final_sip_code (''Unknown call issue: '' @ str_int final_sip_code)"

definition explain_sip :: "int \<Rightarrow> int \<Rightarrow> string \<Rightarrow> string \<times> string" where
  "explain_sip final_sip_code microsoft_subcode sip_phrase =
     (let subcode_explanation =
            get_or subcode_texts microsoft_subcode
              (''Unrecognized network condition: '' @ str_int microsoft_subcode);
          detailed_explanation =
            get_or detailed_explanations final_sip_code
              ''Detailed technical explanation not available.'';
          full_simple_explanation = simple_explanation final_sip_code @ '' '' @ subcode_explanation;
          full_detailed_explanation =
            ''SIP Code: '' @ str_int final_sip_code @ '' | '' @ detailed_explanation @
            '' | Subcode: '' @ str_int microsoft_subcode @ '' | Original Phrase: '' @ sip_phrase
      in (full_simple_explanation, full_detailed_explanation))"

subsection \<open>TeasmLogsV2.py\<close>

definition sip_categories :: "(string \<times> string) list" where
  "sip_categories =
     [(''1xx'', ''Provisional''),
      (''2xx'', ''Success''),
      (''3xx'', ''Redirection''),
      (''4xx'', ''Client Error''),
      (''5xx'', ''Server Error''),
      (''6xx'', ''Global Failure'')]"

definition error_categories :: "(string \<times> string list) list" where
  "error_categories =
     [(''Authentication'', [''401'', ''407'']),
      (''Routing'', [''404'', ''480'', ''484'', ''485'', ''502'', ''504'']),
      (''Capacity'', [''486'', ''503'', ''513'']),
      (''Protocol'', [''400'', ''405'', ''415'', ''420'', ''421'', ''505'']),
      (''Network'', [''408'', ''483'', ''500'', ''502'']),
      (''Configuration'', [''403'', ''488'', ''501'', ''606''])]"

text \<open>
  In this revision \<open>self.sip_explanations\<close> is the empty dict: the literal holds only
  a comment.
\<close>

definition sip_explanations_V2 :: "(int \<times> string) list" where
  "sip_explanations_V2 = []"

fun first_category :: "(string \<times> string list) list \<Rightarrow> string \<Rightarrow> string" where
  "first_category [] sip_str = ''Uncategorized''"
| "first_category ((category, codes) # rest) sip_str =
     (if sip_str \<in> set codes then category else first_category rest sip_str)"

definition get_error_category :: "int \<Rightarrow> string" where
  "get_error_category sip_code = first_category error_categories (str_int sip_code)"

record diagnostic_info =
  sip_code :: int
  category :: string
  error_category :: string
  subcode :: int
  subcode_description :: string
  diag_cause :: string
  diag_resolution :: string
  original_phrase :: string

text \<open>
  \<open>explain_sip\<close>. Its body is in a \<open>try\<close>; with int codes nothing in it raises
  (\<open>str\<close> of an int is never empty, and every lookup is a \<open>get\<close> with a default), so
  the handler has no branch here.
\<close>

definition explain_sip_V2 :: "int \<Rightarrow> int \<Rightarrow> string \<Rightarrow> string \<times> string \<times> diagnostic_info" where
  "explain_sip_V2 final_sip_code microsoft_subcode sip_phrase =
     (let category_prefix = take 1 (str_int final_sip_code) @ ''xx'';
          category = get_or sip_categories category_prefix ''Unknown Category'';
          error_category = get_error_category final_sip_code;
          simple_explanation =
            get_or sip_explanations_V2 final_sip_code
              (''Unknown call issue: '' @ str_int final_sip_code);
          subcode_info =
            get_or microsoft_subcode_explanations microsoft_subcode
              \<lparr>description = ''Unrecognized network condition: '' @ str_int microsoft_subcode,
               cause = ''Unknown'',
               resolution = ''Contact support for more information''\<rparr>;
          diagnostic_info =
            \<lparr>sip_code = final_sip_code,
             category = category,
             error_category = error_category,
             subcode = microsoft_subcode,
             subcode_description = description subcode_info,
             diag_cause = cause subcode_info,
             diag_resolution = resolution subcode_info,
             original_phrase = sip_phrase\<rparr>;
          detailed_explanation =
            ''Category: '' @ category @ '' ('' @ error_category @ '')'' @ [newline] @
            ''SIP Code '' @ str_int final_sip_code @ '': '' @ simple_explanation @ [newline] @
            ''Microsoft Subcode '' @ str_int microsoft_subcode @ '': '' @
              description subcode_info @ [newline] @
            ''Cause: '' @ cause subcode_info @ [newline] @
            ''Resolution: '' @ resolution subcode_info @ [newline] @
            ''Original Phrase: '' @ sip_phrase
      in (simple_explanation, detailed_explanation, diagnostic_info))"

text \<open>
  \<open>process_file\<close>. The input is what the file system and \<open>pd.read_excel\<close> give: no
  file, an exception with its message, or a data frame with its column labels and rows.
  A cell is given by what \<open>int\<close> makes of it (the int, or the message of the exception
  raised) and by its text in an f-string. The result is the returned pair and, for a
  run that returns \<open>True\<close>, the rows written to the output workbook; the error-summary
  sheet, which pandas derives from those rows, is left out of them.
\<close>

record cell =
  as_int :: "string + int"
  as_text :: string

record dataframe =
  columns :: "string list"
  rows :: "(string \<Rightarrow> cell) list"

datatype source = No_file | Unreadable string | Workbook dataframe

record result_row =
  Simple_Explanation :: string
  Detailed_Explanation :: string
  Diagnostic :: diagnostic_info

definition required_fields :: "string list" where
  "required_fields =
     [''UPN'', ''Display Name'', ''Final SIP code'', ''Final Microsoft subcode'', ''Final SIP Phrase'']"

definition missing_fields :: "dataframe \<Rightarrow> string list" where
  "missing_fields data = filter (\<lambda>field. field \<notin> set (columns data)) required_fields"

fun process_rows :: "(string \<Rightarrow> cell) list \<Rightarrow> string + result_row list" where
  "process_rows [] = Inr []"
| "process_rows (row # rest) =
     (case as_int (row ''Final SIP code'') of
        Inl e \<Rightarrow> Inl e
      | Inr final_sip_code \<Rightarrow>
         (case as_int (row ''Final Microsoft subcode'') of
            Inl e \<Rightarrow> Inl e
          | Inr microsoft_subcode \<Rightarrow>
             (case explain_sip_V2 final_sip_code microsoft_subcode
                     (as_text (row ''Final SIP Phrase'')) of
                (simple_exp, detailed_exp, diagnostic) \<Rightarrow>
                  (case process_rows rest of
                     Inl e \<Rightarrow> Inl e
                   | Inr results \<Rightarrow>
                       Inr (\<lparr>Simple_Explanation = simple_exp,
                             Detailed_Explanation = detailed_exp,
                             Diagnostic = diagnostic\<rparr> # results)))))"

text \<open>
  Lines 176 to 186 build the error summary with pandas and write the workbook. With no
  rows the frame of results has no columns, so \<open>groupby\<close> at line 180 raises
  \<open>KeyError('error_category')\<close> unless the input has a column of that name itself. What
  pandas and the writer raise in the other cases is not modelled but taken as given:
  \<open>later_error results\<close> is the message of the exception raised there, if any.
\<close>

definition summary_error ::
  "dataframe \<Rightarrow> result_row list \<Rightarrow> (result_row list \<Rightarrow> string option) \<Rightarrow> string option" where
  "summary_error data results later_error =
     (if rows data = [] \<and> ''error_category'' \<notin> set (columns data)
      then Some ([CHR 0x27] @ ''error_category'' @ [CHR 0x27])
      else later_error results)"

definition process_file_V2 ::
  "source \<Rightarrow> string \<Rightarrow> (result_row list \<Rightarrow> string option) \<Rightarrow>
   (bool \<times> string) \<times> result_row list option" where
  "process_file_V2 input output_path later_error =
     (case input of
        No_file \<Rightarrow> ((False, ''Input file does not exist''), None)
      | Unreadable e \<Rightarrow> ((False, ''Error processing file: '' @ e), None)
      | Workbook data \<Rightarrow>
          if missing_fields data \<noteq> []
          then ((False, ''Missing required fields: '' @ join '', '' (missing_fields data)), None)
          else (case process_rows (rows data) of
                  Inl e \<Rightarrow> ((False, ''Error processing file: '' @ e), None)
                | Inr results \<Rightarrow>
                    (case summary_error data results later_error of
                       Some e \<Rightarrow> ((False, ''Error processing file: '' @ e), None)
                     | None \<Rightarrow>
                         ((True, ''Successfully processed file. Output saved to: '' @ output_path),
                          Some results))))"

subsection \<open>TeasmLogsV3.py\<close>

definition SUCCESS :: string where
  "SUCCESS = ''SUCCESS''"

definition FAILED :: string where
  "FAILED = ''FAILED''"

definition WARNING :: string where
  "WARNING = ''WARNING''"

definition INFO :: string where
  "INFO = ''INFO''"

text \<open>
  \<open>determine_call_status\<close> reads its argument through \<open>str\<close> alone; \<open>call_status\<close> is
  its chain of tests on that text.
\<close>

definition call_status :: "string \<Rightarrow> string" where
  "call_status s =
     (if startswith s ''2'' then SUCCESS
      else if startswith s ''1'' then INFO
      else if startswith s ''4'' \<or> startswith s ''5'' \<or> startswith s ''6'' then FAILED
      else if startswith s ''3'' then WARNING
      else INFO)"

definition determine_call_status :: "int \<Rightarrow> string" where
  "determine_call_status code = call_status (str_int code)"

record diagnostic_V3 =
  Technical_Details :: string
  Microsoft_Subcode :: string
  Cause :: string
  Resolution :: string

definition explain_sip_V3 :: "int \<Rightarrow> int \<Rightarrow> string \<Rightarrow> string \<times> string \<times> diagnostic_V3" where
  "explain_sip_V3 code microsoft_subcode sip_phrase =
     (let simple_exp = get_or sip_explanations code ''Unknown SIP code'';
          detailed_exp = get_or detailed_explanations code ''No detailed explanation available'';
          subcode_info =
            get_or microsoft_subcode_explanations microsoft_subcode
              \<lparr>description = ''Unknown subcode'',
               cause = ''No information available'',
               resolution = ''Contact support for more information''\<rparr>;
          diagnostic =
            \<lparr>Technical_Details = ''SIP '' @ str_int code @ '' - '' @ sip_phrase,
             Microsoft_Subcode = str_int microsoft_subcode @ '' - '' @ description subcode_info,
             Cause = cause subcode_info,
             Resolution = resolution subcode_info\<rparr>
      in (simple_exp, detailed_exp, diagnostic))"

text \<open>
  The counting loop of \<open>process_file\<close> (lines 135 to 157) and the success rate (line
  194). Line 145 passes the cell \<open>Final SIP code\<close> to \<open>determine_call_status\<close> as pandas
  read it, so a row holds that cell as \<open>str\<close> renders it (the decimal digits for an int
  cell), and a duration; the duration is a number, or nothing for an empty cell (pandas
  reads it as NaN, for which \<open>duration > 0\<close> is false). A row whose code or subcode cell
  \<open>int\<close> rejects ends the whole run in the handler of \<open>process_file\<close>, with no
  statistics; such rows are not in \<open>call_row\<close>.
\<close>

record call_row =
  Final_SIP_code :: string
  Duration_seconds :: "rat option"

record counters =
  total_attempted_calls :: nat
  successful_calls :: nat
  failed_calls :: nat
  warning_calls :: nat
  info_calls :: nat

definition positive_duration :: "call_row \<Rightarrow> bool" where
  "positive_duration row = (case Duration_seconds row of Some d \<Rightarrow> d > 0 | None \<Rightarrow> False)"

definition count_row :: "counters \<Rightarrow> call_row \<Rightarrow> counters" where
  "count_row c row =
     (let status = call_status (Final_SIP_code row)
      in if positive_duration row
         then (let c1 = c\<lparr>total_attempted_calls := total_attempted_calls c + 1\<rparr>
               in if status = SUCCESS then c1\<lparr>successful_calls := successful_calls c1 + 1\<rparr>
                  else if status = FAILED then c1\<lparr>failed_calls := failed_calls c1 + 1\<rparr>
                  else if status = WARNING then c1\<lparr>warning_calls := warning_calls c1 + 1\<rparr>
                  else if status = INFO then c1\<lparr>info_calls := info_calls c1 + 1\<rparr>
                  else c1)
         else c)"

definition count_calls :: "call_row list \<Rightarrow> counters" where
  "count_calls data =
     foldl count_row
       \<lparr>total_attempted_calls = 0, successful_calls = 0, failed_calls = 0,
        warning_calls = 0, info_calls = 0\<rparr> data"

text \<open>
  Line 194 works in Python floats, which are IEEE binary64 numbers. A float is modelled
  by the rational it denotes. \<open>to_double x\<close> is the float nearest to \<open>x\<close>, a tie going to
  the even significand: with \<open>exponent x\<close> the binary exponent of \<open>x\<close>, the floats near \<open>x\<close>
  are the multiples of 2 to the power \<open>exponent x - 52\<close>, and of 2 to the power -1074
  below the normal range. Overflow is left out: no value here exceeds 100.
  \<^item> \<open>successful_calls / total_attempted_calls\<close> is the quotient of two ints, rounded
    once to a float;
  \<^item> \<open>* 100\<close> is the float product, rounded once;
  \<^item> \<open>round(x, 2)\<close> on a float rounds the exact value of \<open>x\<close> to two decimals, a tie
    going to the even digit, and returns the float nearest to that decimal; on the int
    0 of the other branch it returns 0.
\<close>

definition round_half_even :: "rat \<Rightarrow> int" where
  "round_half_even x =
     (let f = \<lfloor>x\<rfloor>; d = x - of_int f
      in if d < 1 / 2 then f else if d > 1 / 2 then f + 1 else if even f then f else f + 1)"

definition exponent :: "rat \<Rightarrow> int" where
  "exponent x =
     (case quotient_of \<bar>x\<bar> of
        (p, q) \<Rightarrow> (let d = bitlen p - bitlen q in if 2 powi d \<le> \<bar>x\<bar> then d else d - 1))"

definition to_double :: "rat \<Rightarrow> rat" where
  "to_double x =
     (if x = 0 then 0
      else (let ulp = 2 powi (max (exponent x) (- 1022) - 52)
            in of_int (round_half_even (x / ulp)) * ulp))"

definition round2 :: "rat \<Rightarrow> rat" where
  "round2 x = to_double (of_int (round_half_even (x * 100)) / 100)"

definition success_rate :: "counters \<Rightarrow> rat" where
  "success_rate c =
     round2 (if total_attempted_calls c > 0
             then to_double
                    (to_double (of_nat (successful_calls c) / of_nat (total_attempted_calls c))
                     * 100)
             else 0)"

text \<open>The leading decimal digit of a number, for stating what the first character is.\<close>

function leading_digit :: "nat \<Rightarrow> nat" where
  "leading_digit n = (if n < 10 then n else leading_digit (n div 10))"
  by pat_completeness auto
termination
  by (relation "measure (\<lambda>n. n)") auto

declare leading_digit.simps [simp del]

section \<open>The session correlator\<close>

text \<open>
  C10: a line that does not begin with the timestamp pattern leaves the pair of session
  context and emitted records as it was, whatever else the line contains.
\<close>

theorem line_without_timestamp_is_skipped:
  assumes "re_match timestamp_re line = None"
  shows "parse_log_file_step (current_session, log_entries) line = (current_session, log_entries)"
  using assms by (simp add: parse_log_file_step_def)

theorem line_without_timestamp_is_skipped_witness:
  "re_match timestamp_re (''FROM: <a@x> TO: <b@x> Call End Reason: Busy'' @ [newline]) = None
   \<and> contains ''FROM:'' (''FROM: <a@x> TO: <b@x> Call End Reason: Busy'' @ [newline])
   \<and> call_end (''FROM: <a@x> TO: <b@x> Call End Reason: Busy'' @ [newline])
   \<and> parse_log_file_step ([''caller'' \<mapsto> ''c@x''], [])
         (''FROM: <a@x> TO: <b@x> Call End Reason: Busy'' @ [newline])
       = ([''caller'' \<mapsto> ''c@x''], [])"
proof (intro conjI)
  show ts: "re_match timestamp_re (''FROM: <a@x> TO: <b@x> Call End Reason: Busy'' @ [newline]) = None"
    by code_simp
  show "contains ''FROM:'' (''FROM: <a@x> TO: <b@x> Call End Reason: Busy'' @ [newline])"
    by code_simp
  show "call_end (''FROM: <a@x> TO: <b@x> Call End Reason: Busy'' @ [newline])"
    by code_simp
  show "parse_log_file_step ([''caller'' \<mapsto> ''c@x''], [])
         (''FROM: <a@x> TO: <b@x> Call End Reason: Busy'' @ [newline])
       = ([''caller'' \<mapsto> ''c@x''], [])"
    by (rule line_without_timestamp_is_skipped [OF ts])
qed

text \<open>
  C1: a line that begins with a timestamp and contains \<open>Call End\<close> or \<open>Released\<close> adds
  exactly one record to the emitted ones. The record takes its end time, session id, IP
  group, direction and remote address from the line, and its caller, callee, termination
  reason and duration from the session context as it stands once the line's own caller,
  callee and reason are stored; the reason is \<open>Normal\<close> when none is recorded. The
  session context after the step is the empty one.
\<close>

theorem call_end_emits_one_record:
  assumes "re_match timestamp_re line = Some tm"
    and "contains ''Call End'' line \<or> contains ''Released'' line"
  shows "parse_log_file_step (current_session, log_entries) line =
           (Map.empty,
            log_entries @
            [\<lparr>Call_End_Time = group1 tm,
              Session_ID = sid_of line,
              IP_Group = ip_group_of line,
              Caller = (case update_session current_session line ''caller'' of
                          Some c \<Rightarrow> c | None \<Rightarrow> ''''),
              Callee = (case update_session current_session line ''callee'' of
                          Some c \<Rightarrow> c | None \<Rightarrow> ''''),
              Direction = direction_of line,
              Remote_IP = remote_ip_of line,
              Termination_Reason = (case update_session current_session line ''termination_reason'' of
                                      Some r \<Rightarrow> r | None \<Rightarrow> ''Normal''),
              Duration = (case update_session current_session line ''duration'' of
                            Some d \<Rightarrow> d | None \<Rightarrow> '''')\<rparr>])"
  using assms by (simp add: parse_log_file_step_def call_end_def dict_get_def Let_def)

theorem call_end_emits_one_record_witness:
  "re_match timestamp_re (''10:00:05.000 10.0.0.1 -> 10.0.0.2 IPG_Teams Incoming SIP Message Call End Reason: Busy [SID=S1]'' @ [newline])
     = Some (Some ''10:00:05.000'', 12)
   \<and> (contains ''Call End'' (''10:00:05.000 10.0.0.1 -> 10.0.0.2 IPG_Teams Incoming SIP Message Call End Reason: Busy [SID=S1]'' @ [newline])
      \<or> contains ''Released'' (''10:00:05.000 10.0.0.1 -> 10.0.0.2 IPG_Teams Incoming SIP Message Call End Reason: Busy [SID=S1]'' @ [newline]))
   \<and> parse_log_file_step ([''caller'' \<mapsto> ''a@x''], [])
         (''10:00:05.000 10.0.0.1 -> 10.0.0.2 IPG_Teams Incoming SIP Message Call End Reason: Busy [SID=S1]'' @ [newline])
       = (Map.empty,
          [\<lparr>Call_End_Time = ''10:00:05.000'', Session_ID = ''S1'', IP_Group = ''Teams'',
             Caller = ''a@x'', Callee = '''', Direction = ''Incoming'', Remote_IP = ''10.0.0.2'',
             Termination_Reason = ''Busy [SID=S1]'', Duration = ''''\<rparr>])"
proof -
  let ?L = "''10:00:05.000 10.0.0.1 -> 10.0.0.2 IPG_Teams Incoming SIP Message Call End Reason: Busy [SID=S1]'' @ [newline]"
  let ?C = "[''caller'' \<mapsto> ''a@x'']"
  have ts: "re_match timestamp_re ?L = Some (Some ''10:00:05.000'', 12)"
    by code_simp
  have ce: "contains ''Call End'' ?L \<or> contains ''Released'' ?L"
    by code_simp
  have f1: "sid_of ?L = ''S1''" by code_simp
  have f2: "ip_group_of ?L = ''Teams''" by code_simp
  have f3: "direction_of ?L = ''Incoming''" by code_simp
  have f4: "remote_ip_of ?L = ''10.0.0.2''" by code_simp
  have f5: "update_session ?C ?L ''caller'' = Some ''a@x''" by code_simp
  have f6: "update_session ?C ?L ''callee'' = None" by code_simp
  have f7: "update_session ?C ?L ''termination_reason'' = Some ''Busy [SID=S1]''" by code_simp
  have f8: "update_session ?C ?L ''duration'' = None" by code_simp
  have f9: "group1 (Some ''10:00:05.000'', 12) = ''10:00:05.000''" by (simp add: group1_def)
  have "parse_log_file_step (?C, []) ?L =
       (Map.empty,
          [\<lparr>Call_End_Time = ''10:00:05.000'', Session_ID = ''S1'', IP_Group = ''Teams'',
             Caller = ''a@x'', Callee = '''', Direction = ''Incoming'', Remote_IP = ''10.0.0.2'',
             Termination_Reason = ''Busy [SID=S1]'', Duration = ''''\<rparr>])"
    unfolding call_end_emits_one_record [OF ts ce, of ?C "[]"] f1 f2 f3 f4 f5 f6 f7 f8 f9
    by simp
  with ts ce show ?thesis by blast
qed

text \<open>
  C9: the three-line scenario yields exactly one record, with session id \<open>S1\<close>, caller
  \<open>a@x\<close> and callee \<open>b@x\<close>.
\<close>

theorem scenario_one_call_record:
  "parse_log_file
     (''10:00:00.000 INVITE ... FROM: <a@x> ... [SID=S1]'' @ [newline] @
      ''10:00:01.000 ... TO: <b@x> ... [SID=S1]'' @ [newline] @
      ''10:00:05.000 Call End ... [SID=S1]'')
   = [\<lparr>Call_End_Time = ''10:00:05.000'', Session_ID = ''S1'', IP_Group = '''',
        Caller = ''a@x'', Callee = ''b@x'', Direction = '''', Remote_IP = '''',
        Termination_Reason = ''Normal'', Duration = ''''\<rparr>]"
  by code_simp

section \<open>Message blocks\<close>























lemma blank_input_block_dropped:
  "filter new_message_starts (split_nl []) = [] \<and> split_messages [] = [[]] \<and> kept_messages [] = []"
  by code_simp

section \<open>Field extraction\<close>

text \<open>
  C4, as the code has it: \<open>parse_log_line\<close> never fails, and its record has exactly
  the ten keys \<open>timestamp\<close>, \<open>ip\<close>, \<open>sid\<close>, \<open>message_type\<close>, \<open>call_id\<close>, \<open>from_uri\<close>,
  \<open>to_uri\<close>, \<open>user_agent\<close>, \<open>direction\<close> and \<open>status_code\<close>. Each key but \<open>direction\<close>
  holds the group of its pattern's match, or the empty text without a match;
  \<open>direction\<close> holds \<open>Incoming\<close>, \<open>Outgoing\<close> or \<open>Internal\<close>.
\<close>

theorem parse_log_line_fields:
  "dom (parse_log_line line) =
     {''timestamp'', ''ip'', ''sid'', ''message_type'', ''call_id'', ''from_uri'', ''to_uri'',
      ''user_agent'', ''direction'', ''status_code''}
   \<and> parse_log_line line ''timestamp'' =
       Some (case re_match timestamp_re line of Some m \<Rightarrow> group1 m | None \<Rightarrow> '''')
   \<and> parse_log_line line ''ip'' =
       Some (case re_search ip_re line of Some m \<Rightarrow> group1 m | None \<Rightarrow> '''')
   \<and> parse_log_line line ''sid'' =
       Some (case re_search sid_re line of Some m \<Rightarrow> group1 m | None \<Rightarrow> '''')
   \<and> parse_log_line line ''message_type'' =
       Some (case re_search message_type_re line of Some m \<Rightarrow> group1 m | None \<Rightarrow> '''')
   \<and> parse_log_line line ''call_id'' =
       Some (case re_search (header_re ''CALL-ID: '') line of Some m \<Rightarrow> group1 m | None \<Rightarrow> '''')
   \<and> parse_log_line line ''from_uri'' =
       Some (case re_search (header_re ''FROM: '') line of Some m \<Rightarrow> group1 m | None \<Rightarrow> '''')
   \<and> parse_log_line line ''to_uri'' =
       Some (case re_search (header_re ''TO: '') line of Some m \<Rightarrow> group1 m | None \<Rightarrow> '''')
   \<and> parse_log_line line ''user_agent'' =
       Some (case re_search (header_re ''USER-AGENT: '') line of Some m \<Rightarrow> group1 m | None \<Rightarrow> '''')
   \<and> parse_log_line line ''status_code'' =
       Some (case re_search status_re line of Some m \<Rightarrow> group1 m | None \<Rightarrow> '''')
   \<and> parse_log_line line ''direction'' =
       Some (if contains ''Incoming SIP Message'' line then ''Incoming''
             else if contains ''Outgoing SIP Message'' line then ''Outgoing''
             else ''Internal'')"
proof -
  have keys: "dom (parse_log_line line) =
     {''timestamp'', ''ip'', ''sid'', ''message_type'', ''call_id'', ''from_uri'', ''to_uri'',
      ''user_agent'', ''direction'', ''status_code''}"
    by (auto simp add: parse_log_line_def patterns_def Let_def)
  show ?thesis
    unfolding keys
    by (simp add: parse_log_line_def patterns_def Let_def search_text_def)
qed

text \<open>
  The record has no \<open>remote_ip\<close> and no \<open>ip_group\<close> key, also for a block with two
  addresses and an IP group marker.
\<close>

theorem no_remote_ip_or_ip_group_field:
  "parse_log_line ''10:00:00.000 10.0.0.1 10.0.0.2 IPG_Teams INVITE'' ''remote_ip'' = None
   \<and> parse_log_line ''10:00:00.000 10.0.0.1 10.0.0.2 IPG_Teams INVITE'' ''ip_group'' = None
   \<and> parse_log_line ''10:00:00.000 10.0.0.1 10.0.0.2 IPG_Teams INVITE'' ''ip'' = Some ''10.0.0.1''"
  by code_simp

section \<open>Direction\<close>

text \<open>
  C6, as the code has it: the \<open>direction\<close> field of \<open>parse_log_line\<close> is \<open>Incoming\<close>
  when the block contains \<open>Incoming SIP Message\<close>, else \<open>Outgoing\<close> when it contains
  \<open>Outgoing SIP Message\<close>, else \<open>Internal\<close>. The \<open>Direction\<close> of a record emitted by the
  correlator for a line is decided by the same two markers in the same order, and is
  the empty text when the line contains neither.
\<close>

theorem direction_values:
  "parse_log_line block ''direction'' =
       Some (if contains ''Incoming SIP Message'' block then ''Incoming''
             else if contains ''Outgoing SIP Message'' block then ''Outgoing''
             else ''Internal'')
   \<and> (snd (parse_log_file_step (current_session, log_entries) line) = log_entries @ [entry]
        \<longrightarrow> Direction entry =
             (if contains ''Incoming SIP Message'' line then ''Incoming''
              else if contains ''Outgoing SIP Message'' line then ''Outgoing''
              else ''''))"
proof -
  have a: "parse_log_line block ''direction'' =
       Some (if contains ''Incoming SIP Message'' block then ''Incoming''
             else if contains ''Outgoing SIP Message'' block then ''Outgoing''
             else ''Internal'')"
    by (simp add: parse_log_line_def Let_def)
  have b: "Direction entry = direction_of line"
    if "snd (parse_log_file_step (current_session, log_entries) line) = log_entries @ [entry]"
    using that
    by (auto simp add: parse_log_file_step_def Let_def split: option.splits if_splits)
  show ?thesis using a b by (simp add: direction_of_def)
qed

theorem direction_values_witness:
  "snd (parse_log_file_step (Map.empty, []) ''10:00:05.000 Call End [SID=S1]'')
     = [] @ [\<lparr>Call_End_Time = ''10:00:05.000'', Session_ID = ''S1'', IP_Group = '''',
               Caller = '''', Callee = '''', Direction = '''', Remote_IP = '''',
               Termination_Reason = ''Normal'', Duration = ''''\<rparr>]
   \<and> \<not> contains ''Incoming SIP Message'' ''10:00:05.000 Call End [SID=S1]''
   \<and> \<not> contains ''Outgoing SIP Message'' ''10:00:05.000 Call End [SID=S1]''
   \<and> Direction \<lparr>Call_End_Time = ''10:00:05.000'', Session_ID = ''S1'', IP_Group = '''',
               Caller = '''', Callee = '''', Direction = '''', Remote_IP = '''',
               Termination_Reason = ''Normal'', Duration = ''''\<rparr> = ''''"
proof -
  have h: "snd (parse_log_file_step (Map.empty, []) ''10:00:05.000 Call End [SID=S1]'')
     = [] @ [\<lparr>Call_End_Time = ''10:00:05.000'', Session_ID = ''S1'', IP_Group = '''',
               Caller = '''', Callee = '''', Direction = '''', Remote_IP = '''',
               Termination_Reason = ''Normal'', Duration = ''''\<rparr>]"
    by code_simp
  have n1: "\<not> contains ''Incoming SIP Message'' ''10:00:05.000 Call End [SID=S1]''" by code_simp
  have n2: "\<not> contains ''Outgoing SIP Message'' ''10:00:05.000 Call End [SID=S1]''" by code_simp
  show ?thesis
    using direction_values [of "[]" Map.empty "[]" "''10:00:05.000 Call End [SID=S1]''"] h n1 n2
    by simp
qed

text \<open>
  A record emitted for a line with neither marker has the empty text as its
  \<open>Direction\<close>, not \<open>Internal\<close>.
\<close>

theorem call_record_direction_empty:
  "\<not> contains ''Incoming SIP Message'' ''10:00:05.000 Call End [SID=S1]''
   \<and> \<not> contains ''Outgoing SIP Message'' ''10:00:05.000 Call End [SID=S1]''
   \<and> map Direction (parse_log_file ''10:00:05.000 Call End [SID=S1]'') = ['''']
   \<and> map Direction (parse_log_file ''10:00:05.000 Call End [SID=S1]'') \<noteq> [''Internal'']"
  by code_simp

section \<open>Call status\<close>


lemma leading_digit_less: "leading_digit n < 10"
  by (induction n rule: leading_digit.induct) (simp add: leading_digit.simps)

lemma str_nat_hd: "str_nat n \<noteq> [] \<and> hd (str_nat n) = digit_char (leading_digit n)"
proof (induction n rule: str_nat.induct)
  case (1 n)
  show ?case
  proof (cases "n < 10")
    case True
    then show ?thesis by (simp add: str_nat.simps [of n] leading_digit.simps [of n])
  next
    case False
    with 1 show ?thesis by (simp add: str_nat.simps [of n] leading_digit.simps [of n])
  qed
qed

lemma startswith_single: "startswith s [c] \<longleftrightarrow> s \<noteq> [] \<and> hd s = c"
  by (cases s) (simp_all add: startswith_def)

lemma digit_char_eq:
  assumes "d < 10" and "e < 10"
  shows "digit_char d = digit_char e \<longleftrightarrow> d = e"
proof -
  have "of_char (digit_char d) = 48 + d" "of_char (digit_char e) = 48 + e"
    using assms by (simp_all add: digit_char_def)
  then show ?thesis by (metis add_left_cancel)
qed

lemma starts_with_digit:
  assumes "e < 10"
  shows "startswith (str_int (int n)) [digit_char e] \<longleftrightarrow> leading_digit n = e"
  using assms leading_digit_less [of n] str_nat_hd [of n]
  by (simp add: str_int_def startswith_single digit_char_eq)

lemma digit_chars:
  "''1'' = [digit_char 1]" "''2'' = [digit_char 2]" "''3'' = [digit_char 3]"
  "''4'' = [digit_char 4]" "''5'' = [digit_char 5]" "''6'' = [digit_char 6]"
  unfolding digit_char_def by code_simp+

text \<open>
  C2: the status of a code depends on its leading decimal digit alone: 2 gives
  \<open>SUCCESS\<close>, 1 gives \<open>INFO\<close>, 4, 5 and 6 give \<open>FAILED\<close>, 3 gives \<open>WARNING\<close>, and
  every other leading digit gives \<open>INFO\<close>; so 200, 180, 404 and 302 are classified
  \<open>SUCCESS\<close>, \<open>INFO\<close>, \<open>FAILED\<close> and \<open>WARNING\<close>.
\<close>

theorem status_by_leading_digit:
  "determine_call_status (int n) =
     (if leading_digit n = 2 then SUCCESS
      else if leading_digit n = 1 then INFO
      else if leading_digit n = 4 \<or> leading_digit n = 5 \<or> leading_digit n = 6 then FAILED
      else if leading_digit n = 3 then WARNING
      else INFO)
   \<and> determine_call_status 200 = SUCCESS \<and> determine_call_status 180 = INFO
   \<and> determine_call_status 404 = FAILED \<and> determine_call_status 302 = WARNING"
proof -
  have general: "determine_call_status (int n) =
     (if leading_digit n = 2 then SUCCESS
      else if leading_digit n = 1 then INFO
      else if leading_digit n = 4 \<or> leading_digit n = 5 \<or> leading_digit n = 6 then FAILED
      else if leading_digit n = 3 then WARNING
      else INFO)" for n
    unfolding determine_call_status_def call_status_def digit_chars
    by (simp add: starts_with_digit)
  have l: "leading_digit 200 = 2" "leading_digit 180 = 1" "leading_digit 404 = 4" "leading_digit 302 = 3"
    by (simp_all add: leading_digit.simps)
  show ?thesis
    using general [of n] general [of 200] general [of 180] general [of 404] general [of 302] l
    by simp
qed

lemma negative_code_is_info: "i < 0 \<Longrightarrow> determine_call_status i = INFO"
  by (simp add: determine_call_status_def call_status_def str_int_def startswith_def)

section \<open>Success rate\<close>

lemma statuses_differ:
  "SUCCESS \<noteq> FAILED" "SUCCESS \<noteq> WARNING" "SUCCESS \<noteq> INFO"
  by (simp_all add: SUCCESS_def FAILED_def WARNING_def INFO_def)

lemma foldl_count_row:
  "total_attempted_calls (foldl count_row c data) =
     total_attempted_calls c + length (filter positive_duration data)
   \<and> successful_calls (foldl count_row c data) =
     successful_calls c +
     length (filter (\<lambda>row. positive_duration row \<and>
                              call_status (Final_SIP_code row) = SUCCESS) data)"
  by (induction data arbitrary: c) (simp_all add: count_row_def Let_def statuses_differ)

lemma counts_of_rows:
  "total_attempted_calls (count_calls data) = length (filter positive_duration data)"
  "successful_calls (count_calls data) =
     length (filter (\<lambda>row. positive_duration row \<and>
                              call_status (Final_SIP_code row) = SUCCESS) data)"
  using foldl_count_row [of _ data] by (simp_all add: count_calls_def)

text \<open>
  \<open>exponent\<close> is the binary exponent, and \<open>to_double\<close> moves a number by at most half
  the spacing of the floats around it.
\<close>

lemma exponent_bounds:
  assumes "x \<noteq> 0"
  shows "2 powi exponent x \<le> \<bar>x\<bar> \<and> \<bar>x\<bar> < 2 powi (exponent x + 1)"
proof -
  obtain p q where pq: "quotient_of \<bar>x\<bar> = (p, q)" by (cases "quotient_of \<bar>x\<bar>")
  then have q: "q > 0" and x: "\<bar>x\<bar> = of_int p / of_int q"
    using quotient_of_denom_pos quotient_of_div by blast+
  have "\<bar>x\<bar> > 0" using assms by simp
  then have p: "p > 0" using x q by (simp add: zero_less_divide_iff)
  define bp where "bp = bitlen p"
  define bq where "bq = bitlen q"
  have bp: "bp \<ge> 1" and bq: "bq \<ge> 1"
    using p q bitlen_eq_zero_iff [of p] bitlen_eq_zero_iff [of q]
      bitlen_nonneg [of p] bitlen_nonneg [of q]
    unfolding bp_def bq_def by linarith+
  have pow: "(2::rat) powi (n - 1) = of_int (2 ^ nat (n - 1))"
    "(2::rat) powi n = of_int (2 ^ nat n)" if "n \<ge> 1" for n
    using that by (simp_all add: power_int_def)
  have plo: "(2::rat) powi (bp - 1) \<le> of_int p" and phi: "of_int p < (2::rat) powi bp"
    using bitlen_bounds [OF p, folded bp_def] by (simp_all add: pow [OF bp])
  have qlo: "(2::rat) powi (bq - 1) \<le> of_int q" and qhi: "of_int q < (2::rat) powi bq"
    using bitlen_bounds [OF q, folded bq_def] by (simp_all add: pow [OF bq])
  have pos: "(0::rat) < 2 powi k" for k
    by simp
  have "(2::rat) powi (bp - 1 - bq) = 2 powi (bp - 1) / 2 powi bq"
    by (rule power_int_diff) simp
  also have "\<dots> \<le> of_int p / of_int q"
    using plo qhi p q pos by (intro frac_le) simp_all
  finally have lower: "(2::rat) powi (bp - bq - 1) \<le> \<bar>x\<bar>"
    by (simp add: x algebra_simps)
  have "of_int p / of_int q < (2::rat) powi bp / 2 powi (bq - 1)"
    using phi qlo p pos by (intro frac_less) simp_all
  also have "\<dots> = 2 powi (bp - (bq - 1))"
    by (rule power_int_diff [symmetric]) simp
  finally have upper: "\<bar>x\<bar> < (2::rat) powi (bp - bq + 1)"
    by (simp add: x algebra_simps)
  show ?thesis
    using lower upper pq unfolding exponent_def bp_def bq_def
    by (auto simp add: Let_def not_le)
qed

lemma round_half_even_near: "\<bar>of_int (round_half_even y) - y\<bar> \<le> 1 / 2"
  unfolding round_half_even_def Let_def
  by (auto simp add: abs_if) linarith+

lemma to_double_near:
  "\<bar>to_double x - x\<bar> \<le> 2 powi (max (exponent x) (- 1022) - 52) / 2"
proof (cases "x = 0")
  case True
  then show ?thesis by (simp add: to_double_def)
next
  case False
  define ulp :: rat where "ulp = 2 powi (max (exponent x) (- 1022) - 52)"
  have ulp: "ulp > 0" by (simp add: ulp_def)
  have "to_double x - x = (of_int (round_half_even (x / ulp)) - x / ulp) * ulp"
    using False ulp by (simp add: to_double_def ulp_def [symmetric] Let_def algebra_simps)
  then have "\<bar>to_double x - x\<bar> = \<bar>of_int (round_half_even (x / ulp)) - x / ulp\<bar> * ulp"
    using ulp by (simp add: abs_mult)
  also have "\<dots> \<le> 1 / 2 * ulp"
    using round_half_even_near [of "x / ulp"] ulp by (intro mult_right_mono) simp_all
  finally show ?thesis by (simp add: ulp_def)
qed

lemma to_double_half: "to_double (1 / 2) = 1 / 2"
  by code_simp

lemma to_double_fifty: "to_double 50 = 50"
  by code_simp

lemma round2_zero: "round2 0 = 0"
  by code_simp

lemma round2_fifty: "round2 50 = 50"
  by code_simp

lemma split_in_two:
  "list_all (\<lambda>x. P x \<or> Q x) xs \<Longrightarrow> list_all (\<lambda>x. \<not> (P x \<and> Q x)) xs \<Longrightarrow>
   length xs = length (filter P xs) + length (filter Q xs)"
  by (induction xs) auto

text \<open>
  C5, as the code has it: the success rate is \<open>round(successful / attempted * 100, 2)\<close>
  in binary floating point, where attempted is the number of rows with a positive
  duration and successful the number of those with status \<open>SUCCESS\<close>: the quotient is
  rounded to a float, the product with 100 is rounded to a float, and that is rounded
  to two decimals, as a float. The rate is 0 when no row has a positive duration, in
  particular for no rows at all. Rows that all have a positive duration and are
  \<open>SUCCESS\<close> and \<open>FAILED\<close> in equal numbers give the rate 50.
\<close>

theorem success_rate_of_counts:
  "success_rate (count_calls data) =
     (if length (filter positive_duration data) = 0 then 0
      else round2 (to_double
             (to_double
                (of_nat (length (filter (\<lambda>row. positive_duration row \<and>
                                   call_status (Final_SIP_code row) = SUCCESS) data))
                 / of_nat (length (filter positive_duration data)))
              * 100)))
   \<and> success_rate (count_calls []) = 0
   \<and> (data \<noteq> [] \<and> list_all positive_duration data \<and>
      list_all (\<lambda>row. call_status (Final_SIP_code row) = SUCCESS \<or>
                       call_status (Final_SIP_code row) = FAILED) data \<and>
      length (filter (\<lambda>row. call_status (Final_SIP_code row) = SUCCESS) data) =
      length (filter (\<lambda>row. call_status (Final_SIP_code row) = FAILED) data)
      \<longrightarrow> success_rate (count_calls data) = 50)"
proof -
  let ?ok = "\<lambda>row. call_status (Final_SIP_code row) = SUCCESS"
  let ?ko = "\<lambda>row. call_status (Final_SIP_code row) = FAILED"
  let ?a = "length (filter positive_duration data)"
  let ?s = "length (filter (\<lambda>row. positive_duration row \<and> ?ok row) data)"
  have rate: "success_rate (count_calls data) =
      (if ?a = 0 then 0
       else round2 (to_double (to_double (of_nat ?s / of_nat ?a) * 100)))"
    by (simp add: success_rate_def counts_of_rows round2_zero)
  have empty: "success_rate (count_calls []) = 0"
    by (simp add: success_rate_def count_calls_def round2_zero)
  have even_split: "success_rate (count_calls data) = 50"
    if ne: "data \<noteq> []" and pos: "list_all positive_duration data"
      and two: "list_all (\<lambda>row. ?ok row \<or> ?ko row) data"
      and same: "length (filter ?ok data) = length (filter ?ko data)"
  proof -
    have a: "?a = length data"
      using pos by (simp add: list_all_iff)
    have s: "?s = length (filter ?ok data)"
      using pos by (metis (mono_tags, lifting) filter_cong list_all_iff)
    have "list_all (\<lambda>row. \<not> (?ok row \<and> ?ko row)) data"
      by (simp add: list_all_iff statuses_differ)
    then have "length data = length (filter ?ok data) + length (filter ?ko data)"
      using two by (rule split_in_two [rotated])
    then have twice: "length data = 2 * length (filter ?ok data)"
      using same by simp
    moreover have "0 < length data" using ne by simp
    ultimately have k: "0 < length (filter ?ok data)" by linarith
    have half: "(of_nat (length (filter ?ok data)) :: rat) / of_nat (length data) = 1 / 2"
      using k by (simp add: twice)
    have "round2 (to_double (to_double (1 / 2) * 100)) = 50"
      by (simp add: to_double_half to_double_fifty round2_fifty)
    then show ?thesis
      using ne by (simp add: rate a s half)
  qed
  show ?thesis
    using rate empty even_split by blast
qed

theorem success_rate_of_counts_witness:
  "[\<lparr>Final_SIP_code = ''200'', Duration_seconds = Some 42\<rparr>,
    \<lparr>Final_SIP_code = ''404'', Duration_seconds = Some 3\<rparr>] \<noteq> []
   \<and> list_all positive_duration
        [\<lparr>Final_SIP_code = ''200'', Duration_seconds = Some 42\<rparr>,
         \<lparr>Final_SIP_code = ''404'', Duration_seconds = Some 3\<rparr>]
   \<and> list_all (\<lambda>row. call_status (Final_SIP_code row) = SUCCESS \<or>
                    call_status (Final_SIP_code row) = FAILED)
        [\<lparr>Final_SIP_code = ''200'', Duration_seconds = Some 42\<rparr>,
         \<lparr>Final_SIP_code = ''404'', Duration_seconds = Some 3\<rparr>]
   \<and> length (filter (\<lambda>row. call_status (Final_SIP_code row) = SUCCESS)
        [\<lparr>Final_SIP_code = ''200'', Duration_seconds = Some 42\<rparr>,
         \<lparr>Final_SIP_code = ''404'', Duration_seconds = Some 3\<rparr>]) =
      length (filter (\<lambda>row. call_status (Final_SIP_code row) = FAILED)
        [\<lparr>Final_SIP_code = ''200'', Duration_seconds = Some 42\<rparr>,
         \<lparr>Final_SIP_code = ''404'', Duration_seconds = Some 3\<rparr>])
   \<and> success_rate (count_calls
        [\<lparr>Final_SIP_code = ''200'', Duration_seconds = Some 42\<rparr>,
         \<lparr>Final_SIP_code = ''404'', Duration_seconds = Some 3\<rparr>]) = 50"
proof -
  let ?D = "[\<lparr>Final_SIP_code = ''200'', Duration_seconds = Some 42\<rparr>,
             \<lparr>Final_SIP_code = ''404'', Duration_seconds = Some 3\<rparr>]"
  have h1: "?D \<noteq> []" by simp
  have h2: "list_all positive_duration ?D" by code_simp
  have h3: "list_all (\<lambda>row. call_status (Final_SIP_code row) = SUCCESS \<or>
                    call_status (Final_SIP_code row) = FAILED) ?D" by code_simp
  have h4: "length (filter (\<lambda>row. call_status (Final_SIP_code row) = SUCCESS) ?D) =
      length (filter (\<lambda>row. call_status (Final_SIP_code row) = FAILED) ?D)"
    by code_simp
  show ?thesis
    using success_rate_of_counts [of ?D] h1 h2 h3 h4 by blast
qed

text \<open>
  With 23 successful calls among 160 attempted ones the exact quotient times 100 is
  14.375, which rounds to 14.38; the float product lies just below it, and the rate is
  the float nearest to 14.37, more than 0.005 away from the exact value.
\<close>

theorem success_rate_23_of_160:
  "total_attempted_calls
     (count_calls (replicate 23 \<lparr>Final_SIP_code = ''200'', Duration_seconds = Some 60\<rparr> @
                   replicate 137 \<lparr>Final_SIP_code = ''404'', Duration_seconds = Some 60\<rparr>)) = 160
   \<and> successful_calls
     (count_calls (replicate 23 \<lparr>Final_SIP_code = ''200'', Duration_seconds = Some 60\<rparr> @
                   replicate 137 \<lparr>Final_SIP_code = ''404'', Duration_seconds = Some 60\<rparr>)) = 23
   \<and> success_rate
     (count_calls (replicate 23 \<lparr>Final_SIP_code = ''200'', Duration_seconds = Some 60\<rparr> @
                   replicate 137 \<lparr>Final_SIP_code = ''404'', Duration_seconds = Some 60\<rparr>))
       = to_double (1437 / 100)
   \<and> to_double (1437 / 100) \<noteq> to_double (1438 / 100)
   \<and> to_double (1437 / 100) \<noteq> 1438 / 100
   \<and> (23 :: rat) / 160 * 100 = 14375 / 1000
   \<and> round_half_even (23 / 160 * 100 * 100) = 1438
   \<and> \<bar>to_double (1437 / 100) - 14375 / 1000\<bar> > 1 / 200"
  by code_simp

section \<open>Required columns\<close>

lemma contains_iff: "contains sub s \<longleftrightarrow> (\<exists>a b. s = a @ sub @ b)"
proof (induction s)
  case Nil
  then show ?case by auto
next
  case (Cons c cs)
  have sw: "startswith (c # cs) sub \<longleftrightarrow> (\<exists>b. c # cs = sub @ b)"
    unfolding startswith_def by (metis append_eq_conv_conj)
  show ?case
  proof
    assume "contains sub (c # cs)"
    then consider "startswith (c # cs) sub" | "contains sub cs" by auto
    then show "\<exists>a b. c # cs = a @ sub @ b"
    proof cases
      case 1
      then obtain b where "c # cs = [] @ sub @ b" using sw by auto
      then show ?thesis by blast
    next
      case 2
      then obtain a b where "cs = a @ sub @ b" using Cons.IH by auto
      then have "c # cs = (c # a) @ sub @ b" by simp
      then show ?thesis by blast
    qed
  next
    assume "\<exists>a b. c # cs = a @ sub @ b"
    then obtain a b where ab: "c # cs = a @ sub @ b" by auto
    show "contains sub (c # cs)"
    proof (cases a)
      case Nil
      then have "startswith (c # cs) sub" using ab sw by auto
      then show ?thesis by simp
    next
      case (Cons x xs)
      then have "cs = xs @ sub @ b" using ab by simp
      then show ?thesis using Cons.IH by auto
    qed
  qed
qed

lemma contains_join: "x \<in> set xs \<Longrightarrow> contains x (pre @ join sep xs)"
proof -
  assume "x \<in> set xs"
  then have "\<exists>a b. join sep xs = a @ x @ b"
  proof (induction sep xs rule: join.induct)
    case (1 sep)
    then show ?case by simp
  next
    case (2 sep y)
    then have "join sep [y] = [] @ x @ []" by simp
    then show ?case by blast
  next
    case (3 sep y z zs)
    show ?case
    proof (cases "x = y")
      case True
      then have "join sep (y # z # zs) = [] @ x @ (sep @ join sep (z # zs))" by simp
      then show ?thesis by blast
    next
      case False
      then obtain a b where "join sep (z # zs) = a @ x @ b" using 3 by auto
      then have "join sep (y # z # zs) = (y @ sep @ a) @ x @ b" by simp
      then show ?thesis by blast
    qed
  qed
  then obtain a b where "pre @ join sep xs = (pre @ a) @ x @ b" by auto
  then show ?thesis unfolding contains_iff by blast
qed

text \<open>
  C8: when the data frame lacks one or more of the required columns, \<open>process_file\<close>
  returns \<open>False\<close> with the message \<open>Missing required fields:\<close> followed by all the
  missing required columns, separated by commas; each of them occurs in the message,
  and no row is processed or written.
\<close>

theorem missing_columns_reported:
  assumes "missing_fields data \<noteq> []"
  shows "process_file_V2 (Workbook data) output_path later_error =
           ((False, ''Missing required fields: '' @ join '', '' (missing_fields data)), None)
         \<and> set (missing_fields data) = set required_fields - set (columns data)
         \<and> list_all (\<lambda>field. contains field (snd (fst (process_file_V2 (Workbook data) output_path later_error))))
              (missing_fields data)"
proof -
  have out: "process_file_V2 (Workbook data) output_path later_error =
           ((False, ''Missing required fields: '' @ join '', '' (missing_fields data)), None)"
    using assms by (simp add: process_file_V2_def)
  have which: "set (missing_fields data) = set required_fields - set (columns data)"
    by (auto simp add: missing_fields_def)
  have "list_all (\<lambda>field. contains field (''Missing required fields: '' @ join '', '' (missing_fields data)))
          (missing_fields data)"
    unfolding list_all_iff using contains_join by blast
  then show ?thesis unfolding out using which by simp
qed

theorem missing_columns_reported_witness:
  "missing_fields \<lparr>columns = [''UPN'', ''Final SIP code'', ''Start time''], rows = []\<rparr> \<noteq> []
   \<and> process_file_V2 (Workbook \<lparr>columns = [''UPN'', ''Final SIP code'', ''Start time''], rows = []\<rparr>)
        ''out.xlsx'' (\<lambda>results. None)
      = ((False, ''Missing required fields: Display Name, Final Microsoft subcode, Final SIP Phrase''),
         None)"
proof -
  let ?D = "\<lparr>columns = [''UPN'', ''Final SIP code'', ''Start time''], rows = []\<rparr>"
  have m: "missing_fields ?D = [''Display Name'', ''Final Microsoft subcode'', ''Final SIP Phrase'']"
    by code_simp
  then have h: "missing_fields ?D \<noteq> []" by simp
  show ?thesis
    using missing_columns_reported [OF h, of "''out.xlsx''" "\<lambda>results. None"] h by (simp add: m)
qed

text \<open>
  A workbook with every required column and no rows is not reported as processed: the
  summary fails on the missing \<open>error_category\<close> column.
\<close>

lemma no_rows_summary_error:
  "process_file_V2 (Workbook \<lparr>columns = required_fields, rows = []\<rparr>) ''out.xlsx'' later_error
     = ((False, ''Error processing file: '' @ [CHR 0x27] @ ''error_category'' @ [CHR 0x27]), None)"
  by (simp add: process_file_V2_def missing_fields_def summary_error_def required_fields_def)

section \<open>Codes outside the table\<close>

text \<open>
  C7, as the code has it: for a status code that is not a key of \<open>sip_explanations\<close>,
  no revision of \<open>explain_sip\<close> fails. In TeamsLog.py the simple explanation is
  \<open>Unknown call issue:\<close> followed by the code, and the returned explanation is that
  text, a space and the subcode explanation. In TeasmLogsV3.py the simple explanation
  is the fixed text \<open>Unknown SIP code\<close>. In TeasmLogsV2.py, whose table is empty, the
  simple explanation of every code is \<open>Unknown call issue:\<close> followed by the code, and
  so contains the code.
\<close>

theorem unknown_code_explanations:
  "(map_of sip_explanations code = None \<longrightarrow>
      simple_explanation code = ''Unknown call issue: '' @ str_int code
      \<and> fst (explain_sip code microsoft_subcode sip_phrase) =
          ''Unknown call issue: '' @ str_int code @ '' '' @
          get_or subcode_texts microsoft_subcode
            (''Unrecognized network condition: '' @ str_int microsoft_subcode)
      \<and> fst (explain_sip_V3 code microsoft_subcode sip_phrase) = ''Unknown SIP code'')
   \<and> fst (explain_sip_V2 code microsoft_subcode sip_phrase) = ''Unknown call issue: '' @ str_int code
   \<and> contains (str_int code) (fst (explain_sip_V2 code microsoft_subcode sip_phrase))"
proof -
  have v: "fst (explain_sip_V2 code microsoft_subcode sip_phrase) =
             ''Unknown call issue: '' @ str_int code"
    by (simp add: explain_sip_V2_def get_or_def sip_explanations_V2_def Let_def)
  have "\<exists>a b. ''Unknown call issue: '' @ str_int code = a @ str_int code @ b"
    by (rule exI [of _ "''Unknown call issue: ''"], rule exI [of _ "[]"]) simp
  then have c: "contains (str_int code) (''Unknown call issue: '' @ str_int code)"
    unfolding contains_iff .
  have rest: "map_of sip_explanations code = None \<longrightarrow>
      simple_explanation code = ''Unknown call issue: '' @ str_int code
      \<and> fst (explain_sip code microsoft_subcode sip_phrase) =
          ''Unknown call issue: '' @ str_int code @ '' '' @
          get_or subcode_texts microsoft_subcode
            (''Unrecognized network condition: '' @ str_int microsoft_subcode)
      \<and> fst (explain_sip_V3 code microsoft_subcode sip_phrase) = ''Unknown SIP code''"
    by (simp add: simple_explanation_def explain_sip_def explain_sip_V3_def get_or_def Let_def)
  show ?thesis
    unfolding v using rest c by blast
qed

theorem unknown_code_explanations_witness:
  "map_of sip_explanations 999 = None
   \<and> simple_explanation 999 = ''Unknown call issue: 999''
   \<and> fst (explain_sip 999 0 ''Nope'') = ''Unknown call issue: 999 No additional details available.''
   \<and> fst (explain_sip_V3 999 0 ''Nope'') = ''Unknown SIP code''
   \<and> fst (explain_sip_V2 999 0 ''Nope'') = ''Unknown call issue: 999''"
proof -
  have h: "map_of sip_explanations 999 = None" by code_simp
  have s: "str_int 999 = ''999''" by code_simp
  have g: "get_or subcode_texts 0 (''Unrecognized network condition: '' @ str_int 0)
           = ''No additional details available.''" by code_simp
  have t: "simple_explanation 999 = ''Unknown call issue: '' @ str_int 999
      \<and> fst (explain_sip 999 0 ''Nope'') =
          ''Unknown call issue: '' @ str_int 999 @ '' '' @
          get_or subcode_texts 0 (''Unrecognized network condition: '' @ str_int 0)
      \<and> fst (explain_sip_V3 999 0 ''Nope'') = ''Unknown SIP code''"
    using unknown_code_explanations [of 999 0 "''Nope''"] h by blast
  have v: "fst (explain_sip_V2 999 0 ''Nope'') = ''Unknown call issue: '' @ str_int 999"
    using unknown_code_explanations [of 999 0 "''Nope''"] by blast
  show ?thesis
    using t v h unfolding s g by simp
qed

text \<open>
  In TeasmLogsV3.py the simple explanation of the unknown code 999 is not
  \<open>Unknown call issue: 999\<close> and does not contain the code.
\<close>

theorem unknown_code_V3_has_no_code:
  "map_of sip_explanations 999 = None
   \<and> fst (explain_sip_V3 999 0 ''Nope'') = ''Unknown SIP code''
   \<and> fst (explain_sip_V3 999 0 ''Nope'') \<noteq> ''Unknown call issue: 999''
   \<and> \<not> contains ''999'' (fst (explain_sip_V3 999 0 ''Nope''))"
  by code_simp

end
